theory Spec2Isabelle
  imports Main
begin

section \<open>The Pomodoro timer of the Timer page\<close>

text \<open>
  The component \<^verbatim>\<open>Timer\<close> keeps its state in React hooks: \<^verbatim>\<open>phase\<close>,
  \<^verbatim>\<open>remaining\<close>, \<^verbatim>\<open>intervalCount\<close>, \<^verbatim>\<open>running\<close>, \<^verbatim>\<open>history\<close>, the four
  hooks of the configuration, and the mutable reference \<^verbatim>\<open>focusStartRef\<close>. The
  model is explicit state passing. The record \<open>timer\<close> holds what the handlers of the
  timer read and write, the record \<open>page\<close> adds the configuration. Three fields of
  \<open>timer\<close> are not hooks:
  \<^item> \<open>inserts\<close>: the rows handed to \<^verbatim>\<open>supabase.from('study_sessions').insert\<close>, in
    order (start and end instant of each);
  \<^item> \<open>timeouts\<close>: the callbacks registered with \<^verbatim>\<open>setTimeout(..., 1000)\<close> that have
    not fired yet, oldest first. A callback is a closure of the render in which
    \<^verbatim>\<open>handlePhaseEnd\<close> was created, so the only thing it remembers is the value
    \<^verbatim>\<open>phase\<close> had in that render: the phase that was ending;
  \<^item> \<open>failure\<close>: the error that has removed the page, if any. The hooks of a removed
    page keep the values of the last render that was committed; nothing shows them.

  A \<^verbatim>\<open>Date\<close> is its number of milliseconds since the epoch. The two inputs a
  handler reads from outside are passed as arguments: \<open>now\<close> is what
  \<^verbatim>\<open>new Date()\<close> returns, and \<open>user\<close> says whether \<^verbatim>\<open>getUserOrWarn()\<close> returned a
  user.

  How React runs the code:
  \<^item> a handler runs to its end before the next event (the \<^verbatim>\<open>await\<close>s of
    \<^verbatim>\<open>handlePhaseEnd\<close> are not interleaved with other events), and the state it
    sets is committed in one render after it;
  \<^item> a function handed to a setter (an updater) runs in that render, after the handler
    has returned. The updater of \<^verbatim>\<open>setHistory\<close> in \<^verbatim>\<open>handlePhaseEnd\<close> reads
    \<^verbatim>\<open>focusStartRef.current\<close> at that moment. An error thrown while rendering
    removes the whole page (the root has no error boundary): nothing of the render is
    committed, and no handler runs any more. The field \<open>failure\<close> records it;
  \<^item> the handlers of the buttons belong to the current render. The handlers of the
    keys and the callback of the interval belong to the render in which their effects
    last ran, which is the last one that changed \<^verbatim>\<open>running\<close> or \<^verbatim>\<open>phase\<close>
    (the dependencies of both effects). They see the current \<^verbatim>\<open>phase\<close>,
    \<^verbatim>\<open>running\<close> and \<^verbatim>\<open>intervalCount\<close>, which change only together with these
    two, and the configuration as it was in that render;
  \<^item> in the tick, the state written by \<^verbatim>\<open>handlePhaseEnd\<close> replaces the 0 returned by
    the updater of \<^verbatim>\<open>setRemaining\<close>.
\<close>

subsection \<open>Data\<close>

datatype phase = Idle | Focus | Short | Long

record config =
  workMin :: int
  shortMin :: int
  longMin :: int
  intervalsBeforeLong :: int

text \<open>
  The \<^verbatim>\<open>id\<close> of a session is a string: the key of a stored row, or
  \<^verbatim>\<open>String(Date.now())\<close> for a row the page prepends itself. \<^verbatim>\<open>start_at\<close> and
  \<^verbatim>\<open>end_at\<close> are ISO strings of instants; the model keeps the instants.
\<close>

datatype session_id = Row string | Stamp int

text \<open>The TypeError thrown while React renders.\<close>

datatype error = RenderError

record session =
  sess_id :: session_id
  start_at :: int
  end_at :: "int option"

record timer =
  phase :: phase
  remaining :: int
  intervalCount :: int
  running :: bool
  history :: "session list"
  focusStartRef :: "int option"
  inserts :: "(int \<times> int) list"
  timeouts :: "phase list"
  failure :: "error option"

subsection \<open>Mount\<close>

text \<open>
  The query of the mount effect ends in \<^verbatim>\<open>.limit(10)\<close>; \<open>rows\<close> are the user's
  stored sessions in the order of the query (none when nobody is logged in).
\<close>

definition loadHistory :: "session list \<Rightarrow> session list" where
  "loadHistory rows = take 10 rows"

definition init :: "session list \<Rightarrow> timer" where
  "init rows =
     \<lparr>phase = Idle, remaining = 0, intervalCount = 0, running = False,
      history = loadHistory rows, focusStartRef = None, inserts = [], timeouts = [],
      failure = None\<rparr>"

subsection \<open>Handlers\<close>

text \<open>
  \<^verbatim>\<open>a % b === 0\<close> on JavaScript numbers holding integers: \<^verbatim>\<open>a % 0\<close> is NaN, which
  is not 0; otherwise the remainder is 0 exactly when \<open>b\<close> divides \<open>a\<close>.
\<close>

definition rem_is_zero :: "int \<Rightarrow> int \<Rightarrow> bool" where
  "rem_is_zero a b = (b \<noteq> 0 \<and> a mod b = 0)"

text \<open>
  The updater handed to \<^verbatim>\<open>setHistory\<close>, for the end instant \<open>endAt\<close> of its
  closure. \<open>ref\<close> is \<^verbatim>\<open>focusStartRef.current\<close> at the moment React runs the updater;
  on null, \<^verbatim>\<open>focusStartRef.current!.toISOString()\<close> throws.
\<close>

definition historyUpdater :: "int option \<Rightarrow> int \<Rightarrow> session list \<Rightarrow> error + session list" where
  "historyUpdater ref endAt h =
     (case ref of
        None \<Rightarrow> Inl RenderError
      | Some st \<Rightarrow>
          Inr (take 10 (\<lparr>sess_id = Stamp endAt, start_at = st, end_at = Some endAt\<rparr> # h)))"

text \<open>
  The first block of \<^verbatim>\<open>handlePhaseEnd\<close>: with a user, the row is handed to the
  backend and the updater is queued (the second component is its \<open>endAt\<close>); then the
  stored focus start is cleared.
\<close>

definition recordFocus :: "bool \<Rightarrow> int \<Rightarrow> timer \<Rightarrow> timer \<times> int option" where
  "recordFocus user now s =
     (if phase s = Focus then
        (case focusStartRef s of
           None \<Rightarrow> (s, None)
         | Some st \<Rightarrow>
             (if user then
                (s\<lparr>inserts := inserts s @ [(st, now)], focusStartRef := None\<rparr>, Some now)
              else (s\<lparr>focusStartRef := None\<rparr>, None)))
      else (s, None))"

text \<open>
  The render after \<^verbatim>\<open>handlePhaseEnd\<close>. \<open>s\<close> is the state before the handler and
  \<open>s'\<close> the state with everything the handler has set. A queued updater of the history
  runs now, with the focus start as the handler has left it. When it throws, the hooks
  keep the values of \<open>s\<close>; what the handler did outside React (the row handed over,
  the reference, the timeout) stays done.
\<close>

definition render :: "int option \<Rightarrow> timer \<Rightarrow> timer \<Rightarrow> timer" where
  "render queued s s' =
     (case queued of
        None \<Rightarrow> s'
      | Some endAt \<Rightarrow>
          (case historyUpdater (focusStartRef s') endAt (history s') of
             Inl e \<Rightarrow>
               s\<lparr>inserts := inserts s', focusStartRef := focusStartRef s',
                 timeouts := timeouts s', failure := Some e\<rparr>
           | Inr h \<Rightarrow> s'\<lparr>history := h\<rparr>))"

definition handlePhaseEnd :: "config \<Rightarrow> bool \<Rightarrow> int \<Rightarrow> timer \<Rightarrow> timer" where
  "handlePhaseEnd c user now s =
     (let s1 = (fst (recordFocus user now s))\<lparr>running := False\<rparr>;
          s2 = (case phase s of
                  Focus \<Rightarrow>
                    (let nextInterval = intervalCount s + 1 in
                     if rem_is_zero nextInterval (intervalsBeforeLong c)
                     then s1\<lparr>intervalCount := nextInterval, phase := Long, remaining := longMin c * 60\<rparr>
                     else s1\<lparr>intervalCount := nextInterval, phase := Short, remaining := shortMin c * 60\<rparr>)
                | Short \<Rightarrow> s1\<lparr>phase := Focus, remaining := workMin c * 60\<rparr>
                | Long \<Rightarrow> s1\<lparr>phase := Focus, remaining := workMin c * 60\<rparr>
                | Idle \<Rightarrow> s1\<lparr>phase := Idle, remaining := 0\<rparr>)
      in render (snd (recordFocus user now s)) s (s2\<lparr>timeouts := timeouts s2 @ [phase s]\<rparr>))"

text \<open>
  \<^verbatim>\<open>startPhase\<close>, with the \<^verbatim>\<open>phase\<close> of its closure as the argument \<open>p\<close>.
\<close>

definition startPhase :: "config \<Rightarrow> phase \<Rightarrow> int \<Rightarrow> timer \<Rightarrow> timer" where
  "startPhase c p now s =
     (if p = Idle then s\<lparr>phase := Focus, remaining := workMin c * 60, focusStartRef := Some now\<rparr>
      else if p = Focus then s\<lparr>focusStartRef := Some now\<rparr>
      else s)\<lparr>running := True\<rparr>"

text \<open>
  The callback of \<^verbatim>\<open>setTimeout\<close> in \<^verbatim>\<open>handlePhaseEnd\<close>:
  \<^verbatim>\<open>if (phase !== 'idle') startPhase()\<close>, both with the phase of the closure.
\<close>

definition autoStart :: "config \<Rightarrow> int \<Rightarrow> timer \<Rightarrow> timer" where
  "autoStart c now s =
     (case timeouts s of
        [] \<Rightarrow> s
      | p # ps \<Rightarrow>
          (let s' = s\<lparr>timeouts := ps\<rparr>
           in if p \<noteq> Idle then startPhase c p now s' else s'))"

definition toggle :: "config \<Rightarrow> int \<Rightarrow> timer \<Rightarrow> timer" where
  "toggle c now s =
     (if running s then s\<lparr>running := False\<rparr>
      else
        (if phase s = Idle then
           s\<lparr>intervalCount := 0, phase := Focus, remaining := workMin c * 60,
             focusStartRef := Some now\<rparr>
         else if phase s = Focus then s\<lparr>focusStartRef := Some now\<rparr>
         else s)\<lparr>running := True\<rparr>)"

definition reset :: "timer \<Rightarrow> timer" where
  "reset s =
     s\<lparr>running := False, phase := Idle, remaining := 0, intervalCount := 0,
       focusStartRef := None\<rparr>"

text \<open>
  The callback of \<^verbatim>\<open>setInterval\<close>; the interval exists only while \<^verbatim>\<open>running\<close>.
\<close>

definition tick :: "config \<Rightarrow> bool \<Rightarrow> int \<Rightarrow> timer \<Rightarrow> timer" where
  "tick c user now s =
     (if \<not> running s then s
      else if remaining s \<le> 1 then handlePhaseEnd c user now (s\<lparr>remaining := 0\<rparr>)
      else s\<lparr>remaining := remaining s - 1\<rparr>)"

text \<open>
  The key N (\<^verbatim>\<open>if (running) handlePhaseEnd()\<close>) and the button Next, which is
  rendered only while \<^verbatim>\<open>running\<close>.
\<close>

definition skip :: "config \<Rightarrow> bool \<Rightarrow> int \<Rightarrow> timer \<Rightarrow> timer" where
  "skip c user now s = (if running s then handlePhaseEnd c user now s else s)"

text \<open>
  \<^verbatim>\<open>todayCount\<close>, a memo of the history: \<open>today\<close> is the instant at which the memo
  was last computed. \<^verbatim>\<open>toISOString()\<close> prints an instant in UTC, and the part before
  the \<^verbatim>\<open>T\<close> is its UTC calendar date; two such dates are equal exactly when the
  instants lie in the same UTC day, which \<open>utcDate\<close> numbers.
\<close>

definition utcDate :: "int \<Rightarrow> int" where
  "utcDate t = t div 86400000"

definition todayCount :: "int \<Rightarrow> session list \<Rightarrow> nat" where
  "todayCount today h =
     length (filter (\<lambda>sess. case end_at sess of None \<Rightarrow> False
                                | Some e \<Rightarrow> utcDate e = utcDate today) h)"

subsection \<open>The page: configuration, closures and events\<close>

text \<open>The initial values of the four configuration hooks: 25, 5, 15 and 4.\<close>

definition defaultConfig :: config where
  "defaultConfig = \<lparr>workMin = 25, shortMin = 5, longMin = 15, intervalsBeforeLong = 4\<rparr>"

text \<open>
  \<open>inputs\<close> are the four configuration hooks as the current render has them;
  \<open>effectConfig\<close> is their value in the render in which the effects of the keys and of
  the interval last ran.
\<close>

record page =
  hooks :: timer
  inputs :: config
  effectConfig :: config

definition mount :: "session list \<Rightarrow> page" where
  "mount rows = \<lparr>hooks = init rows, inputs = defaultConfig, effectConfig = defaultConfig\<rparr>"

text \<open>
  The \<^verbatim>\<open>onChange\<close> of a configuration input stores \<^verbatim>\<open>parseInt(e.target.value) || 1\<close>;
  the argument is the result of \<^verbatim>\<open>parseInt\<close>, \<open>None\<close> for NaN.
\<close>

definition parsed :: "int option \<Rightarrow> int" where
  "parsed v = (case v of None \<Rightarrow> 1 | Some n \<Rightarrow> if n = 0 then 1 else n)"

datatype event =
    SetWorkMin "int option"
  | SetShortMin "int option"
  | SetLongMin "int option"
  | SetIntervalsBeforeLong "int option"
  | ClickToggle int
  | Space int
  | ClickReset
  | ClickNext bool int
  | KeyN bool int
  | Tick bool int
  | Timeout int

text \<open>
  The handler of an event. A button runs the function of the current render, a key and
  the interval the function of the render of their effect. The callback of a timeout
  never reads the configuration (\<^verbatim>\<open>startPhase\<close> does so only for the idle phase, which
  the callback excludes).
\<close>

fun dispatch :: "event \<Rightarrow> page \<Rightarrow> page" where
  "dispatch (SetWorkMin v) p = p\<lparr>inputs := (inputs p)\<lparr>workMin := parsed v\<rparr>\<rparr>"
| "dispatch (SetShortMin v) p = p\<lparr>inputs := (inputs p)\<lparr>shortMin := parsed v\<rparr>\<rparr>"
| "dispatch (SetLongMin v) p = p\<lparr>inputs := (inputs p)\<lparr>longMin := parsed v\<rparr>\<rparr>"
| "dispatch (SetIntervalsBeforeLong v) p =
     p\<lparr>inputs := (inputs p)\<lparr>intervalsBeforeLong := parsed v\<rparr>\<rparr>"
| "dispatch (ClickToggle now) p = p\<lparr>hooks := toggle (inputs p) now (hooks p)\<rparr>"
| "dispatch (Space now) p = p\<lparr>hooks := toggle (effectConfig p) now (hooks p)\<rparr>"
| "dispatch ClickReset p = p\<lparr>hooks := reset (hooks p)\<rparr>"
| "dispatch (ClickNext user now) p = p\<lparr>hooks := skip (inputs p) user now (hooks p)\<rparr>"
| "dispatch (KeyN user now) p = p\<lparr>hooks := skip (effectConfig p) user now (hooks p)\<rparr>"
| "dispatch (Tick user now) p = p\<lparr>hooks := tick (effectConfig p) user now (hooks p)\<rparr>"
| "dispatch (Timeout now) p = p\<lparr>hooks := autoStart (effectConfig p) now (hooks p)\<rparr>"

text \<open>
  After a render that changed \<^verbatim>\<open>running\<close> or \<^verbatim>\<open>phase\<close> the two effects run again
  and their handlers are those of the new render; \<open>old\<close> are the hooks before.
\<close>

definition rerunEffects :: "timer \<Rightarrow> page \<Rightarrow> page" where
  "rerunEffects old p =
     (if running (hooks p) = running old \<and> phase (hooks p) = phase old then p
      else p\<lparr>effectConfig := inputs p\<rparr>)"

text \<open>One event. Once the page has been removed nothing of it reacts any more.\<close>

definition step :: "event \<Rightarrow> page \<Rightarrow> page" where
  "step e p =
     (case failure (hooks p) of
        Some err \<Rightarrow> p
      | None \<Rightarrow> rerunEffects (hooks p) (dispatch e p))"

fun run :: "event list \<Rightarrow> page \<Rightarrow> page" where
  "run [] p = p"
| "run (e # es) p = run es (step e p)"

text \<open>
  Letting a phase run out: one tick each second, the first one second after \<open>now\<close>;
  as calls of the callback, and as events of the page.
\<close>

fun ticks :: "config \<Rightarrow> bool \<Rightarrow> nat \<Rightarrow> int \<Rightarrow> timer \<Rightarrow> timer" where
  "ticks c user 0 now s = s"
| "ticks c user (Suc n) now s = ticks c user n (now + 1000) (tick c user (now + 1000) s)"

fun tickEvents :: "bool \<Rightarrow> nat \<Rightarrow> int \<Rightarrow> event list" where
  "tickEvents user 0 now = []"
| "tickEvents user (Suc n) now = Tick user (now + 1000) # tickEvents user n (now + 1000)"

text \<open>
  A phase that starts at \<open>now\<close> and is left alone while nobody is logged in:
  \<^verbatim>\<open>remaining\<close> ticks, the last of which ends the phase, and one second later the
  callback of the timeout.
\<close>

definition naturalPhase :: "config \<Rightarrow> int \<Rightarrow> timer \<Rightarrow> timer" where
  "naturalPhase c now s =
     autoStart c (now + 1000 * remaining s + 1000)
       (ticks c False (nat (remaining s)) now s)"

text \<open>The states at the start of each of \<open>n + 1\<close> successive phases left alone.\<close>

fun naturalRun :: "config \<Rightarrow> nat \<Rightarrow> int \<Rightarrow> timer \<Rightarrow> timer list" where
  "naturalRun c 0 now s = [s]"
| "naturalRun c (Suc n) now s =
     s # naturalRun c n (now + 1000 * remaining s + 1000) (naturalPhase c now s)"

text \<open>The configuration the data model of the specification asks for.\<close>

definition validConfig :: "config \<Rightarrow> bool" where
  "validConfig c =
     (1 \<le> workMin c \<and> 1 \<le> shortMin c \<and> 1 \<le> longMin c \<and> 1 \<le> intervalsBeforeLong c)"

text \<open>
  The configured length of a phase in seconds, as the progress ring computes it
  (\<^verbatim>\<open>phase === 'focus' ? workMin * 60 : phase === 'short' ? shortMin * 60 : longMin * 60\<close>,
  and 0 when idle).
\<close>

definition phaseDuration :: "config \<Rightarrow> phase \<Rightarrow> int" where
  "phaseDuration c p =
     (case p of
        Idle \<Rightarrow> 0
      | Focus \<Rightarrow> workMin c * 60
      | Short \<Rightarrow> shortMin c * 60
      | Long \<Rightarrow> longMin c * 60)"

subsection \<open>Auxiliary predicates\<close>

text \<open>A state in which phase \<open>p\<close> has just been started, after \<open>k\<close> completed intervals.\<close>

definition startsPhase :: "config \<Rightarrow> phase \<Rightarrow> int \<Rightarrow> timer \<Rightarrow> bool" where
  "startsPhase c p k s =
     (phase s = p \<and> remaining s = phaseDuration c p \<and> intervalCount s = k \<and> running s \<and>
      timeouts s = [] \<and> failure s = None)"

definition view :: "timer \<Rightarrow> phase \<times> int" where
  "view s = (phase s, remaining s)"

subsection \<open>The specification's count of today's records\<close>

text \<open>
  The specification counts the completed focus records whose \<open>endedAt\<close> falls on the
  current calendar day in the user's local time zone. \<open>offset\<close> is the zone's distance
  from UTC in milliseconds; the records are the rows of the persistence collaborator.
\<close>

definition localDate :: "int \<Rightarrow> int \<Rightarrow> int" where
  "localDate offset t = (t + offset) div 86400000"

definition specTodayCount :: "int \<Rightarrow> int \<Rightarrow> (int \<times> int) list \<Rightarrow> nat" where
  "specTodayCount offset today records =
     length (filter (\<lambda>r. localDate offset (snd r) = localDate offset today) records)"

section \<open>Auxiliary lemmas\<close>

lemmas handler_defs =
  handlePhaseEnd_def recordFocus_def render_def historyUpdater_def startPhase_def
  autoStart_def toggle_def reset_def tick_def skip_def Let_def

lemmas page_defs = step_def rerunEffects_def mount_def init_def loadHistory_def

lemma skip_running: "running s \<Longrightarrow> skip c user now s = handlePhaseEnd c user now s"
  by (simp add: skip_def)

lemma tick_last:
  "running s \<Longrightarrow> remaining s \<le> 1 \<Longrightarrow>
   tick c user now s = handlePhaseEnd c user now (s\<lparr>remaining := 0\<rparr>)"
  by (simp add: tick_def)

subsection \<open>A phase left alone ends after \<^verbatim>\<open>remaining\<close> ticks\<close>

lemma ticks_expire:
  "running s \<Longrightarrow> remaining s = int (Suc n) \<Longrightarrow>
   ticks c user (Suc n) now s =
     handlePhaseEnd c user (now + 1000 * int (Suc n)) (s\<lparr>remaining := 0\<rparr>)"
proof (induction n arbitrary: s now)
  case 0
  then show ?case by (simp add: tick_last)
next
  case (Suc n)
  let ?s' = "s\<lparr>remaining := int (Suc n)\<rparr>"
  from Suc.prems have t: "tick c user (now + 1000) s = ?s'"
    by (simp add: tick_def)
  have "ticks c user (Suc (Suc n)) now s = ticks c user (Suc n) (now + 1000) ?s'"
    using t by simp
  also have "\<dots> = handlePhaseEnd c user (now + 1000 + 1000 * int (Suc n)) (?s'\<lparr>remaining := 0\<rparr>)"
    using Suc.prems by (intro Suc.IH) simp_all
  also have "\<dots> = handlePhaseEnd c user (now + 1000 * int (Suc (Suc n))) (s\<lparr>remaining := 0\<rparr>)"
    by (simp add: algebra_simps)
  finally show ?case .
qed

lemma ticks_remaining:
  assumes "running s" "1 \<le> remaining s"
  shows "ticks c user (nat (remaining s)) now s =
         handlePhaseEnd c user (now + 1000 * remaining s) (s\<lparr>remaining := 0\<rparr>)"
proof -
  from assms obtain n where n: "nat (remaining s) = Suc n"
    by (cases "nat (remaining s)") auto
  with assms have r: "remaining s = int (Suc n)" by linarith
  show ?thesis
    unfolding n using ticks_expire [OF assms(1) r, of c user now] r by simp
qed

lemma naturalPhase_expire:
  assumes "running s" "1 \<le> remaining s"
  shows "naturalPhase c now s =
         autoStart c (now + 1000 * remaining s + 1000)
           (handlePhaseEnd c False (now + 1000 * remaining s) (s\<lparr>remaining := 0\<rparr>))"
  unfolding naturalPhase_def using ticks_remaining [OF assms] by simp

subsection \<open>The same on the page\<close>

lemma run_append: "run (xs @ ys) p = run ys (run xs p)"
  by (induction xs arbitrary: p) simp_all

lemma step_failed: "failure (hooks p) = Some e \<Longrightarrow> step ev p = p"
  by (simp add: step_def)

lemma run_failed: "failure (hooks p) = Some e \<Longrightarrow> run evs p = p"
  by (induction evs) (simp_all add: step_failed)

lemma run_tickEvents_Suc:
  "failure (hooks p) = None \<Longrightarrow> running (hooks p) \<Longrightarrow> remaining (hooks p) = int (Suc n) \<Longrightarrow>
   run (tickEvents user (Suc n) now) p =
     step (Tick user (now + 1000 * int (Suc n))) (p\<lparr>hooks := (hooks p)\<lparr>remaining := 1\<rparr>\<rparr>)"
proof (induction n arbitrary: p now)
  case 0
  then have "p\<lparr>hooks := (hooks p)\<lparr>remaining := 1\<rparr>\<rparr> = p" by simp
  then show ?case by simp
next
  case (Suc n)
  let ?p' = "p\<lparr>hooks := (hooks p)\<lparr>remaining := int (Suc n)\<rparr>\<rparr>"
  from Suc.prems have t: "step (Tick user (now + 1000)) p = ?p'"
    by (simp add: step_def rerunEffects_def tick_def)
  have "run (tickEvents user (Suc (Suc n)) now) p = run (tickEvents user (Suc n) (now + 1000)) ?p'"
    using t by simp
  also have "\<dots> = step (Tick user (now + 1000 + 1000 * int (Suc n)))
                     (?p'\<lparr>hooks := (hooks ?p')\<lparr>remaining := 1\<rparr>\<rparr>)"
    using Suc.prems by (intro Suc.IH) simp_all
  also have "\<dots> = step (Tick user (now + 1000 * int (Suc (Suc n))))
                     (p\<lparr>hooks := (hooks p)\<lparr>remaining := 1\<rparr>\<rparr>)"
    by (simp add: algebra_simps)
  finally show ?case .
qed

text \<open>
  The ticks of a whole phase, followed by any events: they amount to the last tick.
\<close>

lemma run_tickEvents:
  assumes "failure (hooks p) = None" "running (hooks p)" "remaining (hooks p) = int n" "0 < n"
  shows "run (tickEvents user n now @ evs) p =
         run evs (step (Tick user (now + 1000 * int n)) (p\<lparr>hooks := (hooks p)\<lparr>remaining := 1\<rparr>\<rparr>))"
proof -
  from assms(4) obtain m where m: "n = Suc m" by (cases n) auto
  show ?thesis
    unfolding run_append m
    using run_tickEvents_Suc [OF assms(1,2), of m user now] assms(3) m by simp
qed

subsection \<open>The cycle of phases while nobody is logged in\<close>

lemma focus_natural:
  assumes "validConfig c" "startsPhase c Focus k s"
  shows "startsPhase c (if rem_is_zero (k + 1) (intervalsBeforeLong c) then Long else Short) (k + 1)
           (naturalPhase c now s)"
proof -
  from assms have "running s" "1 \<le> remaining s"
    by (auto simp: startsPhase_def validConfig_def phaseDuration_def)
  then have "naturalPhase c now s =
         autoStart c (now + 1000 * remaining s + 1000)
           (handlePhaseEnd c False (now + 1000 * remaining s) (s\<lparr>remaining := 0\<rparr>))"
    by (rule naturalPhase_expire)
  with assms(2) show ?thesis
    by (cases "focusStartRef s")
       (simp_all add: startsPhase_def phaseDuration_def handler_defs)
qed

lemma break_natural:
  assumes "validConfig c" "startsPhase c p k s" "p = Short \<or> p = Long"
  shows "startsPhase c Focus k (naturalPhase c now s)"
proof -
  from assms have "running s" "1 \<le> remaining s"
    by (auto simp: startsPhase_def validConfig_def phaseDuration_def)
  then have "naturalPhase c now s =
         autoStart c (now + 1000 * remaining s + 1000)
           (handlePhaseEnd c False (now + 1000 * remaining s) (s\<lparr>remaining := 0\<rparr>))"
    by (rule naturalPhase_expire)
  with assms(2,3) show ?thesis
    by (auto simp add: startsPhase_def phaseDuration_def handler_defs)
qed

lemma rem_is_zero_below:
  assumes "0 \<le> k" "k < n"
  shows "rem_is_zero (k + 1) n = (k + 1 = n)"
proof
  assume "rem_is_zero (k + 1) n"
  then have "n dvd k + 1" by (simp add: rem_is_zero_def mod_eq_0_iff_dvd)
  then have "n \<le> k + 1" using assms zdvd_imp_le [of n "k + 1"] by simp
  with assms show "k + 1 = n" by simp
next
  assume "k + 1 = n"
  with assms show "rem_is_zero (k + 1) n" by (auto simp: rem_is_zero_def)
qed

text \<open>
  While nobody is logged in: from the start of a focus phase with \<open>k\<close> completed
  intervals, \<open>j\<close> rounds of focus and short break follow while the counter stays below
  the configured number, and the break after the next focus phase is the long one
  exactly when the counter reaches it.
\<close>

lemma cycle_trace:
  assumes "validConfig c"
  shows "startsPhase c Focus k s \<Longrightarrow> 0 \<le> k \<Longrightarrow> k + int j < intervalsBeforeLong c \<Longrightarrow>
     map view (naturalRun c (2 * j + 1) now s) =
       concat (replicate j [(Focus, workMin c * 60), (Short, shortMin c * 60)]) @
       [(Focus, workMin c * 60),
        if k + int j + 1 = intervalsBeforeLong c then (Long, longMin c * 60)
        else (Short, shortMin c * 60)]"
proof (induction j arbitrary: s k now)
  case 0
  have "startsPhase c (if rem_is_zero (k + 1) (intervalsBeforeLong c) then Long else Short) (k + 1)
           (naturalPhase c now s)"
    using assms "0.prems"(1) by (rule focus_natural)
  moreover have "rem_is_zero (k + 1) (intervalsBeforeLong c) = (k + 1 = intervalsBeforeLong c)"
    using "0.prems" by (intro rem_is_zero_below) simp_all
  ultimately show ?case
    using "0.prems"(1) by (simp add: view_def startsPhase_def phaseDuration_def)
next
  case (Suc j)
  let ?s1 = "naturalPhase c now s"
  let ?t1 = "now + 1000 * remaining s + 1000"
  let ?s2 = "naturalPhase c ?t1 ?s1"
  let ?t2 = "?t1 + 1000 * remaining ?s1 + 1000"
  have "rem_is_zero (k + 1) (intervalsBeforeLong c) = (k + 1 = intervalsBeforeLong c)"
    using Suc.prems by (intro rem_is_zero_below) simp_all
  with Suc.prems have nz: "\<not> rem_is_zero (k + 1) (intervalsBeforeLong c)" by simp
  have s1: "startsPhase c Short (k + 1) ?s1"
    using focus_natural [OF assms Suc.prems(1), of now] nz by simp
  then have s2: "startsPhase c Focus (k + 1) ?s2"
    using assms by (intro break_natural [where p = Short]) simp_all
  have unroll: "naturalRun c (2 * Suc j + 1) now s =
      s # ?s1 # naturalRun c (2 * j + 1) ?t2 ?s2"
    by simp
  have "map view (naturalRun c (2 * j + 1) ?t2 ?s2) =
       concat (replicate j [(Focus, workMin c * 60), (Short, shortMin c * 60)]) @
       [(Focus, workMin c * 60),
        if (k + 1) + int j + 1 = intervalsBeforeLong c then (Long, longMin c * 60)
        else (Short, shortMin c * 60)]"
    using s2 Suc.prems by (intro Suc.IH) simp_all
  moreover have "view s = (Focus, workMin c * 60)" "view ?s1 = (Short, shortMin c * 60)"
    using Suc.prems(1) s1 by (simp_all add: view_def startsPhase_def phaseDuration_def)
  ultimately show ?case
    unfolding unroll by (simp add: algebra_simps)
qed

text \<open>
  Started with the button from the idle page and left alone with nobody logged in, the
  timer goes through \<open>N - 1\<close> rounds of focus and short break, then focus and the long
  break, for every configuration with positive entries.
\<close>

lemma cycle_logged_out:
  assumes "validConfig c"
  shows "map view (naturalRun c (2 * nat (intervalsBeforeLong c) - 1) now (toggle c now (init rows))) =
         concat (replicate (nat (intervalsBeforeLong c) - 1)
                   [(Focus, workMin c * 60), (Short, shortMin c * 60)]) @
         [(Focus, workMin c * 60), (Long, longMin c * 60)]"
proof -
  let ?j = "nat (intervalsBeforeLong c) - 1"
  from assms have N: "1 \<le> intervalsBeforeLong c" by (simp add: validConfig_def)
  have st: "startsPhase c Focus 0 (toggle c now (init rows))"
    by (simp add: startsPhase_def toggle_def init_def phaseDuration_def)
  have j: "2 * nat (intervalsBeforeLong c) - 1 = 2 * ?j + 1" using N by simp
  have "0 + int ?j < intervalsBeforeLong c" using N by simp
  from cycle_trace [OF assms st _ this, of now] N show ?thesis
    unfolding j by simp
qed

subsection \<open>The history never holds more than ten sessions\<close>




section \<open>The phase cycle\<close>

text \<open>
  C1 says that a start from idle, with every phase left to run out, goes through focus,
  short break, ..., focus, long break. The code on the page as it is mounted (25, 5 and
  15 minutes, 4 intervals), with a user logged in: the button Start at instant 0, then
  1500 ticks. The last tick ends the focus phase; the row is handed to the backend, the
  updater of the history throws while React renders, and the page is removed. The
  hooks never show a break, whatever events follow. With nobody logged in the same run
  reaches the short break.
\<close>

theorem first_focus_end_removes_page:
  "hooks (run (ClickToggle 0 # tickEvents True 1500 0 @ evs) (mount [])) =
     \<lparr>phase = Focus, remaining = 0, intervalCount = 0, running = True, history = [],
      focusStartRef = None, inserts = [(0, 1500000)], timeouts = [Focus],
      failure = Some RenderError\<rparr> \<and>
   hooks (run (ClickToggle 0 # tickEvents False 1500 0 @ [Timeout 1501000]) (mount [])) =
     \<lparr>phase = Short, remaining = 300, intervalCount = 1, running = True, history = [],
      focusStartRef = Some 1501000, inserts = [], timeouts = [],
      failure = None\<rparr>"
  by (simp add: run_tickEvents run_failed page_defs handler_defs defaultConfig_def
      rem_is_zero_def)

section \<open>Records of completed focus phases\<close>




section \<open>The stored focus start\<close>

text \<open>
  C3 says that a focus start is stored exactly in the focus phase. The code on the page
  as it is mounted, started with the button at instant 0 and left alone, with nobody
  logged in during the first focus phase: when that phase has run out, the callback of
  the timeout, one second later, stores a focus start although the short break is
  running. The next focus phase leaves that value alone. When the user has logged in by
  the time it ends, the row handed to the backend begins with the break: it spans 1801
  seconds, not 1500.
\<close>

theorem focus_start_in_break:
  "phase (hooks (run (ClickToggle 0 # tickEvents False 1500 0 @ [Timeout 1501000]) (mount [])))
     = Short \<and>
   focusStartRef
     (hooks (run (ClickToggle 0 # tickEvents False 1500 0 @ [Timeout 1501000]) (mount [])))
     = Some 1501000 \<and>
   failure (hooks (run (ClickToggle 0 # tickEvents False 1500 0 @ [Timeout 1501000]) (mount [])))
     = None \<and>
   inserts
     (hooks (run (ClickToggle 0 # tickEvents False 1500 0 @ Timeout 1501000 #
                  tickEvents False 300 1501000 @ Timeout 1802000 #
                  tickEvents True 1500 1802000 @ evs) (mount [])))
     = [(1501000, 3302000)]"
  by (simp add: run_tickEvents run_failed page_defs handler_defs defaultConfig_def
      rem_is_zero_def)

section \<open>The interval counter\<close>

text \<open>
  C4 says that every completed focus phase raises the counter by exactly 1. The code on
  the page as it is mounted, with a user logged in: the button Start at instant 0 and
  the button Next at 700000, or 1500 ticks instead. The focus phase is completed and its
  row is handed over, but the render that would have shown the counter at 1 throws, and
  the counter stays 0 whatever events follow. With nobody logged in the same skip
  raises it to 1.
\<close>

theorem counter_lost_at_focus_end:
  "intervalCount (hooks (run (ClickToggle 0 # ClickNext True 700000 # evs) (mount []))) = 0 \<and>
   inserts (hooks (run (ClickToggle 0 # ClickNext True 700000 # evs) (mount []))) = [(0, 700000)] \<and>
   failure (hooks (run (ClickToggle 0 # ClickNext True 700000 # evs) (mount [])))
     = Some RenderError \<and>
   intervalCount (hooks (run (ClickToggle 0 # tickEvents True 1500 0 @ evs) (mount []))) = 0 \<and>
   inserts (hooks (run (ClickToggle 0 # tickEvents True 1500 0 @ evs) (mount [])))
     = [(0, 1500000)] \<and>
   intervalCount (hooks (run [ClickToggle 0, ClickNext False 700000] (mount []))) = 1"
  by (simp add: run_tickEvents run_failed page_defs handler_defs defaultConfig_def
      rem_is_zero_def)

section \<open>Bounds of the remaining time\<close>

text \<open>
  C5 says that the remaining time never exceeds the configured duration of the current
  phase, nor the largest of the three durations. The code: on the page as it is mounted
  the focus input is set to 1 (the configuration is now 1, 5 and 15 minutes and 4
  intervals, and stays so), then the key Space starts the timer. The handler of the key
  is the one of the first render and starts the focus phase with 25 minutes: 1500
  seconds remain, the focus phase is configured with 60 and the longest phase with 900.
  The button, which runs the function of the current render, starts it with 60.
\<close>

theorem space_start_ignores_edit:
  "inputs (run [SetWorkMin (Some 1), Space 0] (mount [])) =
     \<lparr>workMin = 1, shortMin = 5, longMin = 15, intervalsBeforeLong = 4\<rparr> \<and>
   validConfig (inputs (run [SetWorkMin (Some 1), Space 0] (mount []))) \<and>
   phase (hooks (run [SetWorkMin (Some 1), Space 0] (mount []))) = Focus \<and>
   remaining (hooks (run [SetWorkMin (Some 1), Space 0] (mount []))) = 1500 \<and>
   phaseDuration (inputs (run [SetWorkMin (Some 1), Space 0] (mount []))) Focus = 60 \<and>
   max (workMin (inputs (run [SetWorkMin (Some 1), Space 0] (mount []))) * 60)
     (max (shortMin (inputs (run [SetWorkMin (Some 1), Space 0] (mount []))) * 60)
        (longMin (inputs (run [SetWorkMin (Some 1), Space 0] (mount []))) * 60)) = 900 \<and>
   remaining (hooks (run [SetWorkMin (Some 1), ClickToggle 0] (mount []))) = 60"
  by (simp add: page_defs toggle_def defaultConfig_def parsed_def validConfig_def
      phaseDuration_def)

section \<open>Resume\<close>

text \<open>
  C6, as the code has it. The toggle command in a state that is not idle and not running
  sets \<^verbatim>\<open>running\<close> and changes neither the phase nor the remaining time nor the
  counter. In a break it leaves the stored focus start alone; in the focus phase it
  replaces the stored focus start by the instant of the resume.
\<close>

theorem resume_restamps:
  assumes "phase s \<noteq> Idle" "\<not> running s"
  shows "toggle c now s =
           s\<lparr>focusStartRef := (if phase s = Focus then Some now else focusStartRef s),
             running := True\<rparr>"
  using assms by (simp add: toggle_def)

text \<open>An instance of C6 as amended: a focus phase started at 0, paused, resumed at 5000.\<close>

theorem resume_restamps_witness:
  "phase \<lparr>phase = Focus, remaining = 1400, intervalCount = 0, running = False, history = [],
          focusStartRef = Some 0, inserts = [], timeouts = [], failure = None\<rparr> \<noteq> Idle \<and>
   \<not> running \<lparr>phase = Focus, remaining = 1400, intervalCount = 0, running = False, history = [],
          focusStartRef = Some 0, inserts = [], timeouts = [], failure = None\<rparr> \<and>
   toggle defaultConfig 5000
     \<lparr>phase = Focus, remaining = 1400, intervalCount = 0, running = False, history = [],
      focusStartRef = Some 0, inserts = [], timeouts = [], failure = None\<rparr> =
     \<lparr>phase = Focus, remaining = 1400, intervalCount = 0, running = True, history = [],
      focusStartRef = Some 5000, inserts = [], timeouts = [], failure = None\<rparr>"
  using resume_restamps [of
      "\<lparr>phase = Focus, remaining = 1400, intervalCount = 0, running = False, history = [],
        focusStartRef = Some 0, inserts = [], timeouts = [], failure = None\<rparr>" defaultConfig 5000]
  by simp

text \<open>
  C6 as stated fails: start at 0, pause, resume at 5000. The resume changes the stored
  focus start, from 0 to 5000.
\<close>

theorem resume_restamps_counterexample:
  "phase (hooks (run [ClickToggle 0, ClickToggle 1000] (mount []))) = Focus \<and>
   \<not> running (hooks (run [ClickToggle 0, ClickToggle 1000] (mount []))) \<and>
   focusStartRef (hooks (run [ClickToggle 0, ClickToggle 1000] (mount []))) = Some 0 \<and>
   focusStartRef (toggle defaultConfig 5000 (hooks (run [ClickToggle 0, ClickToggle 1000] (mount []))))
     = Some 5000 \<and>
   focusStartRef (hooks (run [ClickToggle 0, ClickToggle 1000, ClickToggle 5000] (mount [])))
     = Some 5000"
  by (simp add: page_defs toggle_def defaultConfig_def)

section \<open>Today's count\<close>

text \<open>
  C7 says that today's count is the number of completed focus records that ended on the
  current calendar day of the user's local time zone, and the comment above
  \<^verbatim>\<open>todayCount\<close> says the same. The code compares the dates that \<^verbatim>\<open>toISOString\<close>
  prints, which are UTC dates. For a user two hours east of UTC, the stored session from
  21:05 to 21:30 UTC on 2025-01-01 ended at 23:30 of 1 January local time. On a page
  mounted at 22:30 UTC, which is 00:30 of 2 January local time, the history holds that
  session and the code counts it as today's; by local dates nothing was completed today.
\<close>

theorem todayCount_utc:
  "history (hooks (mount [\<lparr>sess_id = Row ''a'', start_at = 1735765500000,
                            end_at = Some 1735767000000\<rparr>])) =
     [\<lparr>sess_id = Row ''a'', start_at = 1735765500000, end_at = Some 1735767000000\<rparr>] \<and>
   todayCount 1735770600000
     (history (hooks (mount [\<lparr>sess_id = Row ''a'', start_at = 1735765500000,
                               end_at = Some 1735767000000\<rparr>]))) = 1 \<and>
   specTodayCount 7200000 1735770600000 [(1735765500000, 1735767000000)] = 0"
  by (simp add: page_defs todayCount_def utcDate_def specTodayCount_def localDate_def)

section \<open>Pause, start and skip as commands\<close>

text \<open>
  C8, as the code has it. The page has one command for start and pause, the toggle.
  While the timer runs it pauses: it clears \<^verbatim>\<open>running\<close> and changes nothing else, so
  the phase stays and no record is handed over. Given again it resumes, so that two
  toggles leave the timer running. The skip command while the timer is not running
  changes nothing.
\<close>

theorem toggle_pauses_then_resumes:
  "(running s \<longrightarrow>
      toggle c now s = s\<lparr>running := False\<rparr> \<and>
      running (toggle c now' (toggle c now s))) \<and>
   (\<not> running s' \<longrightarrow> skip c user now s' = s')"
  by (simp add: toggle_def skip_def)

text \<open>
  An instance of C8 as amended: a running focus phase for the toggle, the same phase
  paused for the skip command.
\<close>

theorem toggle_pauses_then_resumes_witness:
  "running \<lparr>phase = Focus, remaining = 1400, intervalCount = 0, running = True, history = [],
            focusStartRef = Some 0, inserts = [], timeouts = [], failure = None\<rparr> \<and>
   toggle defaultConfig 100000
     \<lparr>phase = Focus, remaining = 1400, intervalCount = 0, running = True, history = [],
      focusStartRef = Some 0, inserts = [], timeouts = [], failure = None\<rparr> =
     \<lparr>phase = Focus, remaining = 1400, intervalCount = 0, running = False, history = [],
      focusStartRef = Some 0, inserts = [], timeouts = [], failure = None\<rparr> \<and>
   \<not> running \<lparr>phase = Focus, remaining = 1400, intervalCount = 0, running = False, history = [],
            focusStartRef = Some 0, inserts = [], timeouts = [], failure = None\<rparr> \<and>
   skip defaultConfig True 100000
     \<lparr>phase = Focus, remaining = 1400, intervalCount = 0, running = False, history = [],
      focusStartRef = Some 0, inserts = [], timeouts = [], failure = None\<rparr> =
     \<lparr>phase = Focus, remaining = 1400, intervalCount = 0, running = False, history = [],
      focusStartRef = Some 0, inserts = [], timeouts = [], failure = None\<rparr>"
  using toggle_pauses_then_resumes [of
      "\<lparr>phase = Focus, remaining = 1400, intervalCount = 0, running = True, history = [],
        focusStartRef = Some 0, inserts = [], timeouts = [], failure = None\<rparr>" defaultConfig
      100000 100000
      "\<lparr>phase = Focus, remaining = 1400, intervalCount = 0, running = False, history = [],
        focusStartRef = Some 0, inserts = [], timeouts = [], failure = None\<rparr>" True]
  by simp

text \<open>
  C8 as stated fails: the command that pauses, given twice, does not give the state it
  gives once (the timer runs again), and the command that starts, given while the timer
  runs, is not ignored (the timer is paused).
\<close>

theorem toggle_pauses_then_resumes_counterexample:
  "toggle defaultConfig 2000 (toggle defaultConfig 1000 (toggle defaultConfig 0 (init [])))
     \<noteq> toggle defaultConfig 1000 (toggle defaultConfig 0 (init [])) \<and>
   toggle defaultConfig 1000 (toggle defaultConfig 0 (init []))
     \<noteq> toggle defaultConfig 0 (init [])"
  by (simp add: toggle_def init_def defaultConfig_def)

section \<open>Completion without a user\<close>

text \<open>
  C9 says that a focus phase completed without a user hands over no record and leaves
  the history alone, while the transition goes on exactly as it does with a user. The
  code on the page as it is mounted, the button Start at instant 0 and the button Next
  at 700000. Without a user the transition is made: no record, the history as it was,
  the counter at 1, the short break with its 300 seconds, the timeout pending. With a
  user the row is handed over and the render throws: the page is removed and none of
  the transition is ever shown, whatever events follow.
\<close>

theorem completion_with_and_without_user:
  "hooks (run [ClickToggle 0, ClickNext False 700000] (mount [])) =
     \<lparr>phase = Short, remaining = 300, intervalCount = 1, running = False, history = [],
      focusStartRef = None, inserts = [], timeouts = [Focus], failure = None\<rparr> \<and>
   hooks (run (ClickToggle 0 # ClickNext True 700000 # evs) (mount [])) =
     \<lparr>phase = Focus, remaining = 1500, intervalCount = 0, running = True, history = [],
      focusStartRef = None, inserts = [(0, 700000)], timeouts = [Focus],
      failure = Some RenderError\<rparr>"
  by (simp add: run_failed page_defs handler_defs defaultConfig_def rem_is_zero_def)

section \<open>The cap of the history\<close>


end
